theory Spec2Isabelle
  imports Main
begin

section \<open>The plugin object of \<open>linux/mobile_ocr_plugin.cc\<close>\<close>

text \<open>
  The source file defines one GObject type, \<open>MobileOcrPlugin\<close>, with an empty instance
  initialiser, a dispose routine that chains up to the parent class, a class initialiser
  that installs that dispose routine, and the registration entry point. Everything else
  the file relies on (the \<open>G_DEFINE_TYPE\<close> expansion, \<open>g_object_new\<close>, the cleanup that
  \<open>g_autoptr\<close> attaches to a local variable) belongs to the host object system and is
  modelled below from the specification and from the documented behaviour of that system.
\<close>

subsection \<open>Pointers, type identifiers, function pointers\<close>

type_synonym gpointer = nat

abbreviation (input) NULL :: gpointer where
  "NULL \<equiv> 0"

text \<open>
  A \<open>GType\<close> is a number chosen by the type system at run time; only the identity of the
  type matters here. \<open>G_TYPE_INVALID\<close> is the value \<open>0\<close> that the \<open>static gsize\<close> of the
  generated \<open>mobile_ocr_plugin_get_type\<close> holds before the type is registered.
\<close>

datatype GType = G_TYPE_INVALID | G_TYPE_OBJECT | G_TYPE_MOBILE_OCR_PLUGIN

text \<open>
  The virtual functions that the base class \<open>GObject\<close> installs in its own class
  structure. \<open>Host_null\<close> is the null function pointer (the \<open>notify\<close> slot of the base class).
\<close>

datatype host_fn =
    G_object_constructor
  | G_object_do_set_property
  | G_object_do_get_property
  | G_object_real_dispose
  | G_object_finalize
  | G_object_dispatch_properties_changed
  | G_object_constructed
  | Host_null

text \<open>
  A slot of the class structure of \<open>MobileOcrPlugin\<close> holds either a function inherited from
  the host or the one function of this file whose address is ever taken.
\<close>

datatype fn_ptr = Host_fn host_fn | Mobile_ocr_plugin_dispose

subsection \<open>Structures\<close>

text \<open>The instance header \<open>struct _GObject\<close>: class pointer, reference count, data list.\<close>

record GObject =
  g_type_instance :: GType
  ref_count :: nat
  qdata :: gpointer

text \<open>
  \<^verbatim>\<open>struct _MobileOcrPlugin { GObject parent_instance; };\<close>
\<close>

record MobileOcrPlugin =
  parent_instance :: GObject

text \<open>
  The class structure \<open>struct _GObjectClass\<close> with its virtual-function slots. The type of
  the slots is a parameter: the class of the parent type \<open>GObject\<close> is filled by the host
  before any derived type exists and holds host functions only, the class of
  \<open>MobileOcrPlugin\<close> may also hold \<open>Mobile_ocr_plugin_dispose\<close>.
\<close>

record 'f GObjectClass =
  g_type_class :: GType
  constructor :: 'f
  set_property :: 'f
  get_property :: 'f
  dispose :: 'f
  finalize :: 'f
  dispatch_properties_changed :: 'f
  notify :: 'f
  constructed :: 'f

text \<open>
  \<open>MobileOcrPluginClass\<close> is declared in the header of the plugin (not in this
  file) as a structure whose only member is the parent class structure.
\<close>

record MobileOcrPluginClass =
  parent_class :: "fn_ptr GObjectClass"

datatype error = Null_dereference | Invalid_pointer | Bad_call

text \<open>What the host does to instances, in the order in which it does it.\<close>

datatype event =
    Ev_new gpointer GType
  | Ev_ref_count gpointer nat
  | Ev_dispose gpointer
  | Ev_finalize gpointer
  | Ev_free gpointer

subsection \<open>The state of the process\<close>

text \<open>
  \<open>static_g_define_type_id\<close> and \<open>mobile_ocr_plugin_parent_class\<close> are the two static
  variables that \<open>G_DEFINE_TYPE\<close> declares in this file. \<open>plugin_class\<close> is the class
  structure of the type, which the type system creates when the first instance is made.
  \<open>heap\<close> holds the live instances; the instance structure has the header as its only
  member, so a cell is a \<open>MobileOcrPlugin\<close> and the type tag of its header says whether it
  is one or a plain \<open>GObject\<close>. \<open>trace\<close> records the life-cycle events; it is
  instrumentation, not program state. \<open>host\<close> is everything else the host framework
  owns: registrars, channels, messengers.
\<close>

record 'h world =
  static_g_define_type_id :: GType
  mobile_ocr_plugin_parent_class :: "host_fn GObjectClass option"
  plugin_class :: "MobileOcrPluginClass option"
  heap :: "(gpointer \<times> MobileOcrPlugin) list"
  trace :: "event list"
  host :: 'h

definition initial_world :: "'h \<Rightarrow> 'h world" where
  "initial_world h =
     \<lparr>static_g_define_type_id = G_TYPE_INVALID,
      mobile_ocr_plugin_parent_class = None,
      plugin_class = None,
      heap = [],
      trace = [],
      host = h\<rparr>"

text \<open>The program state proper: the state without the instrumentation.\<close>

definition observable :: "'h world \<Rightarrow> 'h world" where
  "observable s = s\<lparr>trace := []\<rparr>"

subsection \<open>Heap primitives\<close>

definition fresh_ptr :: "(gpointer \<times> 'a) list \<Rightarrow> gpointer" where
  "fresh_ptr h = Suc (fold max (map fst h) 0)"

definition store_update ::
  "gpointer \<Rightarrow> ('a \<Rightarrow> 'a) \<Rightarrow> (gpointer \<times> 'a) list \<Rightarrow> (gpointer \<times> 'a) list" where
  "store_update p f h = map (\<lambda>(q, x). if q = p then (q, f x) else (q, x)) h"

definition store_free :: "gpointer \<Rightarrow> (gpointer \<times> 'a) list \<Rightarrow> (gpointer \<times> 'a) list" where
  "store_free p h = filter (\<lambda>(q, x). q \<noteq> p) h"

definition set_ref_count :: "gpointer \<Rightarrow> nat \<Rightarrow> 'h world \<Rightarrow> 'h world" where
  "set_ref_count p n s =
     s\<lparr>heap := store_update p (\<lambda>x. x\<lparr>parent_instance := (parent_instance x)\<lparr>ref_count := n\<rparr>\<rparr>) (heap s),
       trace := trace s @ [Ev_ref_count p n]\<rparr>"

definition clear_qdata :: "gpointer \<Rightarrow> 'h world \<Rightarrow> 'h world" where
  "clear_qdata p s =
     s\<lparr>heap := store_update p (\<lambda>x. x\<lparr>parent_instance := (parent_instance x)\<lparr>qdata := NULL\<rparr>\<rparr>) (heap s)\<rparr>"

subsection \<open>The base class, as the host provides it\<close>

text \<open>
  Modelled from the spec: the parent type's class structure and its disposal routine are
  host code (``forwards to the parent type's disposal''); the slots are those the base
  class initialiser of the host installs.
\<close>

definition g_object_class :: "host_fn GObjectClass" where
  "g_object_class =
     \<lparr>g_type_class = G_TYPE_OBJECT,
      constructor = G_object_constructor,
      set_property = G_object_do_set_property,
      get_property = G_object_do_get_property,
      dispose = G_object_real_dispose,
      finalize = G_object_finalize,
      dispatch_properties_changed = G_object_dispatch_properties_changed,
      notify = Host_null,
      constructed = G_object_constructed\<rparr>"

text \<open>
  Modelled from the spec: ``Disposal: forwards to the parent type's disposal''. The spec
  does not say what the parent's disposal does. The model follows the base class of the
  host: its dispose routine releases what the data list of the header refers to (signal
  handlers, closures, weak references) and leaves the list empty, and so does its
  finalize routine; on a pointer that is not a live instance they have nothing to work on.
\<close>

definition g_object_real_dispose :: "gpointer \<Rightarrow> 'h world \<Rightarrow> error + 'h world" where
  "g_object_real_dispose object s =
     (case map_of (heap s) object of
        None \<Rightarrow> Inl Invalid_pointer
      | Some x \<Rightarrow> Inr ((clear_qdata object s)\<lparr>trace := trace s @ [Ev_dispose object]\<rparr>))"

definition g_object_finalize :: "gpointer \<Rightarrow> 'h world \<Rightarrow> error + 'h world" where
  "g_object_finalize object s =
     (case map_of (heap s) object of
        None \<Rightarrow> Inl Invalid_pointer
      | Some x \<Rightarrow> Inr ((clear_qdata object s)\<lparr>trace := trace s @ [Ev_finalize object]\<rparr>))"

text \<open>
  A call through a slot that holds a host function. Only the dispose and finalize routines
  have the signature \<open>void (GObject*)\<close>; a call through any other value is an error.
\<close>

definition call_host :: "host_fn \<Rightarrow> gpointer \<Rightarrow> 'h world \<Rightarrow> error + 'h world" where
  "call_host f object s =
     (case f of
        G_object_real_dispose \<Rightarrow> g_object_real_dispose object s
      | G_object_finalize \<Rightarrow> g_object_finalize object s
      | Host_null \<Rightarrow> Inl Null_dereference
      | _ \<Rightarrow> Inl Bad_call)"

subsection \<open>The functions of the source file\<close>

text \<open>
  \<^verbatim>\<open>static void mobile_ocr_plugin_init(MobileOcrPlugin* self) {}\<close>
\<close>

definition mobile_ocr_plugin_init :: "gpointer \<Rightarrow> 'h world \<Rightarrow> 'h world" where
  "mobile_ocr_plugin_init self s = s"

text \<open>
  \<^verbatim>\<open>static void mobile_ocr_plugin_dispose(GObject* object) {
    G_OBJECT_CLASS(mobile_ocr_plugin_parent_class)->dispose(object);
  }\<close>
  The cast \<open>G_OBJECT_CLASS\<close> leaves the pointer as it is; reading the slot through a null
  \<open>mobile_ocr_plugin_parent_class\<close> is a null dereference.
\<close>

definition mobile_ocr_plugin_dispose :: "gpointer \<Rightarrow> 'h world \<Rightarrow> error + 'h world" where
  "mobile_ocr_plugin_dispose object s =
     (case mobile_ocr_plugin_parent_class s of
        None \<Rightarrow> Inl Null_dereference
      | Some pc \<Rightarrow> call_host (dispose pc) object s)"

text \<open>
  \<^verbatim>\<open>static void mobile_ocr_plugin_class_init(MobileOcrPluginClass* klass) {
    G_OBJECT_CLASS(klass)->dispose = mobile_ocr_plugin_dispose;
  }\<close>
  \<open>G_OBJECT_CLASS(klass)\<close> is the parent class structure at the start of \<open>*klass\<close>. The
  structure is passed by pointer; the model takes it and returns it updated.
\<close>

definition mobile_ocr_plugin_class_init :: "MobileOcrPluginClass \<Rightarrow> MobileOcrPluginClass" where
  "mobile_ocr_plugin_class_init klass =
     klass\<lparr>parent_class := (parent_class klass)\<lparr>dispose := Mobile_ocr_plugin_dispose\<rparr>\<rparr>"

subsection \<open>What \<open>G_DEFINE_TYPE\<close> generates, and the type system behind it\<close>

text \<open>
  Modelled from the spec: \<open>G_DEFINE_TYPE(MobileOcrPlugin, mobile_ocr_plugin, g_object_get_type())\<close>
  is a macro of the host (``type registration'' boilerplate). It generates
  \<open>mobile_ocr_plugin_get_type\<close>, which registers the type once and afterwards returns the
  stored identifier, and \<open>mobile_ocr_plugin_class_intern_init\<close>, which stores the parent
  class in \<open>mobile_ocr_plugin_parent_class\<close> and then calls \<open>mobile_ocr_plugin_class_init\<close>.
\<close>

definition g_type_class_peek_parent :: "MobileOcrPluginClass \<Rightarrow> host_fn GObjectClass option" where
  "g_type_class_peek_parent klass =
     (case g_type_class (parent_class klass) of
        G_TYPE_MOBILE_OCR_PLUGIN \<Rightarrow> Some g_object_class
      | _ \<Rightarrow> None)"

definition mobile_ocr_plugin_class_intern_init ::
  "MobileOcrPluginClass \<Rightarrow> 'h world \<Rightarrow> MobileOcrPluginClass \<times> 'h world" where
  "mobile_ocr_plugin_class_intern_init klass s =
     (let s1 = s\<lparr>mobile_ocr_plugin_parent_class := g_type_class_peek_parent klass\<rparr>
      in (mobile_ocr_plugin_class_init klass, s1))"

definition mobile_ocr_plugin_get_type :: "'h world \<Rightarrow> GType \<times> 'h world" where
  "mobile_ocr_plugin_get_type s =
     (if static_g_define_type_id s = G_TYPE_INVALID
      then (G_TYPE_MOBILE_OCR_PLUGIN, s\<lparr>static_g_define_type_id := G_TYPE_MOBILE_OCR_PLUGIN\<rparr>)
      else (static_g_define_type_id s, s))"

text \<open>
  Modelled from the spec: a new class structure starts as a copy of the parent's class
  structure with its own type identifier; then the class initialiser of the type runs.
\<close>

definition inherit_class :: "GType \<Rightarrow> host_fn GObjectClass \<Rightarrow> fn_ptr GObjectClass" where
  "inherit_class t pc =
     \<lparr>g_type_class = t,
      constructor = Host_fn (constructor pc),
      set_property = Host_fn (set_property pc),
      get_property = Host_fn (get_property pc),
      dispose = Host_fn (dispose pc),
      finalize = Host_fn (finalize pc),
      dispatch_properties_changed = Host_fn (dispatch_properties_changed pc),
      notify = Host_fn (notify pc),
      constructed = Host_fn (constructed pc)\<rparr>"

definition g_type_class_ref :: "'h world \<Rightarrow> 'h world" where
  "g_type_class_ref s =
     (case plugin_class s of
        Some k \<Rightarrow> s
      | None \<Rightarrow>
          (let klass = \<lparr>parent_class = inherit_class G_TYPE_MOBILE_OCR_PLUGIN g_object_class\<rparr>;
               (klass', s1) = mobile_ocr_plugin_class_intern_init klass s
           in s1\<lparr>plugin_class := Some klass'\<rparr>))"

text \<open>\<open>G_OBJECT_GET_CLASS\<close>: the class structure that the header of an instance points to.\<close>

definition g_object_get_class :: "MobileOcrPlugin \<Rightarrow> 'h world \<Rightarrow> fn_ptr GObjectClass option" where
  "g_object_get_class x s =
     (case g_type_instance (parent_instance x) of
        G_TYPE_INVALID \<Rightarrow> None
      | G_TYPE_OBJECT \<Rightarrow> Some (inherit_class G_TYPE_OBJECT g_object_class)
      | G_TYPE_MOBILE_OCR_PLUGIN \<Rightarrow> map_option parent_class (plugin_class s))"

text \<open>A call through a slot of a class structure.\<close>

definition call_fn :: "fn_ptr \<Rightarrow> gpointer \<Rightarrow> 'h world \<Rightarrow> error + 'h world" where
  "call_fn f object s =
     (case f of
        Mobile_ocr_plugin_dispose \<Rightarrow> mobile_ocr_plugin_dispose object s
      | Host_fn g \<Rightarrow> call_host g object s)"

subsection \<open>Construction and release of instances\<close>

text \<open>
  Modelled from the spec: ``Construction: produces a zeroed instance of the plugin object;
  no parameters, no failure modes.'' The host allocates zeroed memory, writes the header
  (class pointer, one reference) and runs the instance initialiser of the type.
\<close>

definition zeroed_instance :: MobileOcrPlugin where
  "zeroed_instance =
     \<lparr>parent_instance = \<lparr>g_type_instance = G_TYPE_INVALID, ref_count = 0, qdata = NULL\<rparr>\<rparr>"

definition g_object_init :: "GType \<Rightarrow> MobileOcrPlugin \<Rightarrow> MobileOcrPlugin" where
  "g_object_init t x =
     x\<lparr>parent_instance := (parent_instance x)\<lparr>g_type_instance := t, ref_count := 1\<rparr>\<rparr>"

definition g_type_create_instance :: "GType \<Rightarrow> 'h world \<Rightarrow> gpointer \<times> 'h world" where
  "g_type_create_instance t s =
     (let p = fresh_ptr (heap s)
      in (p, s\<lparr>heap := (p, g_object_init t zeroed_instance) # heap s,
               trace := trace s @ [Ev_new p t]\<rparr>))"

definition g_object_new :: "GType \<Rightarrow> 'h world \<Rightarrow> gpointer \<times> 'h world" where
  "g_object_new object_type s =
     (case object_type of
        G_TYPE_INVALID \<Rightarrow> (NULL, s)
      | G_TYPE_OBJECT \<Rightarrow> g_type_create_instance G_TYPE_OBJECT s
      | G_TYPE_MOBILE_OCR_PLUGIN \<Rightarrow>
          (let s1 = g_type_class_ref s;
               (p, s2) = g_type_create_instance G_TYPE_MOBILE_OCR_PLUGIN s1
           in (p, mobile_ocr_plugin_init p s2)))"

definition g_type_free_instance :: "gpointer \<Rightarrow> 'h world \<Rightarrow> 'h world" where
  "g_type_free_instance p s =
     s\<lparr>heap := store_free p (heap s), trace := trace s @ [Ev_free p]\<rparr>"

text \<open>
  Modelled from the spec: ``Disposal: the host object system's teardown hook, invoked when
  an object's reference count reaches zero.'' Dropping a reference that is not the last
  one only decrements the count. Dropping the last one calls the dispose slot of the
  object's class; unless dispose handed out a new reference, the count goes to zero, the
  finalize slot is called and the memory is freed.
\<close>

definition g_object_unref :: "gpointer \<Rightarrow> 'h world \<Rightarrow> error + 'h world" where
  "g_object_unref object s =
     (case map_of (heap s) object of
        None \<Rightarrow> Inl Invalid_pointer
      | Some x \<Rightarrow>
          (let old_ref = ref_count (parent_instance x) in
           if old_ref > 1 then Inr (set_ref_count object (old_ref - 1) s)
           else
             (case g_object_get_class x s of
                None \<Rightarrow> Inl Null_dereference
              | Some c \<Rightarrow>
                  (case call_fn (dispose c) object s of
                     Inl e \<Rightarrow> Inl e
                   | Inr s1 \<Rightarrow>
                       (case map_of (heap s1) object of
                          None \<Rightarrow> Inl Invalid_pointer
                        | Some x1 \<Rightarrow>
                            (let old_ref1 = ref_count (parent_instance x1) in
                             if old_ref1 > 1 then Inr (set_ref_count object (old_ref1 - 1) s1)
                             else
                               (case call_fn (finalize c) object (set_ref_count object 0 s1) of
                                  Inl e \<Rightarrow> Inl e
                                | Inr s3 \<Rightarrow> Inr (g_type_free_instance object s3))))))))"

text \<open>
  The cleanup that \<open>g_autoptr(GObject)\<close> attaches to a local variable: when the variable
  goes out of scope, a non-null pointer is unreferenced.
\<close>

definition glib_autoptr_cleanup_GObject :: "gpointer \<Rightarrow> 'h world \<Rightarrow> error + 'h world" where
  "glib_autoptr_cleanup_GObject ptr s =
     (if ptr = NULL then Inr s else g_object_unref ptr s)"

subsection \<open>The registration entry point\<close>

text \<open>
  \<^verbatim>\<open>void mobile_ocr_plugin_register_with_registrar(FlPluginRegistrar* registrar) {
    g_autoptr(GObject) plugin = G_OBJECT(g_object_new(mobile_ocr_plugin_get_type(), nullptr));
  }\<close>
  The cast \<open>G_OBJECT\<close> leaves the pointer as it is. The body ends right after the
  declaration, where the cleanup of \<open>plugin\<close> runs.
\<close>

definition mobile_ocr_plugin_register_with_registrar ::
  "gpointer \<Rightarrow> 'h world \<Rightarrow> error + 'h world" where
  "mobile_ocr_plugin_register_with_registrar registrar s =
     (let (t, s1) = mobile_ocr_plugin_get_type s;
          (plugin, s2) = g_object_new t s1
      in glib_autoptr_cleanup_GObject plugin s2)"

text \<open>The host calling the entry point for a list of registrars, one after the other.\<close>

fun register_all :: "gpointer list \<Rightarrow> 'h world \<Rightarrow> error + 'h world" where
  "register_all [] s = Inr s"
| "register_all (r # rs) s =
     (case mobile_ocr_plugin_register_with_registrar r s of
        Inl e \<Rightarrow> Inl e
      | Inr s' \<Rightarrow> register_all rs s')"

subsection \<open>Well-formed states\<close>

text \<open>
  The class structure of the type as \<open>g_type_class_ref\<close> leaves it, and the invariant of
  the states the program can be in: the stored type identifier is unset or that of the
  plugin type, and once the class structure exists it is the initialised one and the
  parent class pointer is set.
\<close>

definition mobile_ocr_plugin_class :: MobileOcrPluginClass where
  "mobile_ocr_plugin_class =
     mobile_ocr_plugin_class_init
       \<lparr>parent_class = inherit_class G_TYPE_MOBILE_OCR_PLUGIN g_object_class\<rparr>"

definition wf :: "'h world \<Rightarrow> bool" where
  "wf s \<longleftrightarrow>
     static_g_define_type_id s \<noteq> G_TYPE_OBJECT \<and>
     (case plugin_class s of
        None \<Rightarrow> True
      | Some k \<Rightarrow> k = mobile_ocr_plugin_class \<and>
                  mobile_ocr_plugin_parent_class s = Some g_object_class)"

text \<open>The events of a trace that create, and that free, an instance.\<close>

fun allocations :: "event list \<Rightarrow> gpointer list" where
  "allocations [] = []"
| "allocations (Ev_new p t # es) = p # allocations es"
| "allocations (e # es) = allocations es"

fun releases :: "event list \<Rightarrow> gpointer list" where
  "releases [] = []"
| "releases (Ev_free p # es) = p # releases es"
| "releases (e # es) = releases es"

text \<open>
  The state in which a registration leaves a well-formed state: the type is registered and
  its class initialised, and the trace has the life of one temporary instance appended.
\<close>

definition registered :: "'h world \<Rightarrow> 'h world" where
  "registered s =
     (let p = fresh_ptr (heap s)
      in s\<lparr>static_g_define_type_id := G_TYPE_MOBILE_OCR_PLUGIN,
           mobile_ocr_plugin_parent_class := Some g_object_class,
           plugin_class := Some mobile_ocr_plugin_class,
           trace := trace s @
             [Ev_new p G_TYPE_MOBILE_OCR_PLUGIN, Ev_dispose p, Ev_ref_count p 0,
              Ev_finalize p, Ev_free p]\<rparr>)"

text \<open>
  Two states to run the theorems on. In \<open>sample_world\<close> the host has asked for the type
  and made one plugin instance, which stays alive at address 1. In \<open>held_world\<close> the host
  has also taken a second reference to that instance and attached data to it.
\<close>

definition sample_world :: "unit world" where
  "sample_world =
     (case mobile_ocr_plugin_get_type (initial_world ()) of
        (t, s1) \<Rightarrow> snd (g_object_new t s1))"


section \<open>Properties of the heap primitives\<close>

lemma fold_max_ge_acc: "(a::nat) \<le> fold max xs a"
  by (induction xs arbitrary: a) (auto intro: order_trans [OF max.cobounded2])

lemma fold_max_ge_elem: "x \<in> set xs \<Longrightarrow> (x::nat) \<le> fold max xs a"
proof (induction xs arbitrary: a)
  case Nil
  then show ?case by simp
next
  case (Cons y ys)
  show ?case
  proof (cases "x = y")
    case True
    have "y \<le> max y a" by simp
    also have "\<dots> \<le> fold max ys (max y a)" by (rule fold_max_ge_acc)
    finally show ?thesis using True by simp
  next
    case False
    with Cons.prems have "x \<in> set ys" by simp
    then show ?thesis using Cons.IH by simp
  qed
qed

lemma fresh_ptr_notin: "fresh_ptr h \<notin> fst ` set h"
proof
  assume "fresh_ptr h \<in> fst ` set h"
  then have "fresh_ptr h \<in> set (map fst h)" by simp
  then have "fresh_ptr h \<le> fold max (map fst h) 0" by (rule fold_max_ge_elem)
  then show False by (simp add: fresh_ptr_def)
qed

lemma fresh_ptr_not_null: "fresh_ptr h \<noteq> NULL"
  by (simp add: fresh_ptr_def)

lemma store_update_notin: "p \<notin> fst ` set h \<Longrightarrow> store_update p f h = h"
  unfolding store_update_def by (induction h) auto

lemma store_free_notin: "p \<notin> fst ` set h \<Longrightarrow> store_free p h = h"
  unfolding store_free_def by (induction h) auto

lemma store_update_head:
  "p \<notin> fst ` set h \<Longrightarrow> store_update p f ((p, x) # h) = (p, f x) # h"
  using store_update_notin [of p h f] by (simp add: store_update_def)

lemma store_free_head: "p \<notin> fst ` set h \<Longrightarrow> store_free p ((p, x) # h) = h"
  using store_free_notin [of p h] by (simp add: store_free_def)


lemma map_of_fresh_ptr: "map_of h (fresh_ptr h) = None"
  using fresh_ptr_notin [of h] by (simp add: map_of_eq_None_iff)

section \<open>Type registration and construction on well-formed states\<close>

lemma wf_initial: "wf (initial_world h)"
  by (simp add: wf_def initial_world_def)

lemma get_type_wf:
  "wf s \<Longrightarrow> mobile_ocr_plugin_get_type s =
     (G_TYPE_MOBILE_OCR_PLUGIN, s\<lparr>static_g_define_type_id := G_TYPE_MOBILE_OCR_PLUGIN\<rparr>)"
  unfolding mobile_ocr_plugin_get_type_def wf_def
  by (cases "static_g_define_type_id s") auto

lemma class_ref_wf:
  "wf s \<Longrightarrow> g_type_class_ref s =
     s\<lparr>mobile_ocr_plugin_parent_class := Some g_object_class,
       plugin_class := Some mobile_ocr_plugin_class\<rparr>"
  unfolding g_type_class_ref_def wf_def mobile_ocr_plugin_class_intern_init_def
    g_type_class_peek_parent_def mobile_ocr_plugin_class_def inherit_class_def
  by (auto split: option.splits)

lemma heap_class_ref: "heap (g_type_class_ref s) = heap s"
  unfolding g_type_class_ref_def mobile_ocr_plugin_class_intern_init_def
  by (simp add: Let_def split: option.splits)

lemma new_wf:
  "wf s \<Longrightarrow> g_object_new G_TYPE_MOBILE_OCR_PLUGIN s =
     (fresh_ptr (heap s),
      s\<lparr>mobile_ocr_plugin_parent_class := Some g_object_class,
        plugin_class := Some mobile_ocr_plugin_class,
        heap := (fresh_ptr (heap s), g_object_init G_TYPE_MOBILE_OCR_PLUGIN zeroed_instance) # heap s,
        trace := trace s @ [Ev_new (fresh_ptr (heap s)) G_TYPE_MOBILE_OCR_PLUGIN]\<rparr>)"
  by (simp add: g_object_new_def class_ref_wf g_type_create_instance_def
      mobile_ocr_plugin_init_def Let_def)

lemma sample_world_eq:
  "sample_world =
     \<lparr>static_g_define_type_id = G_TYPE_MOBILE_OCR_PLUGIN,
      mobile_ocr_plugin_parent_class = Some g_object_class,
      plugin_class = Some mobile_ocr_plugin_class,
      heap = [(1, g_object_init G_TYPE_MOBILE_OCR_PLUGIN zeroed_instance)],
      trace = [Ev_new 1 G_TYPE_MOBILE_OCR_PLUGIN],
      host = ()\<rparr>"
proof -
  let ?s1 = "(initial_world ())\<lparr>static_g_define_type_id := G_TYPE_MOBILE_OCR_PLUGIN\<rparr>"
  have t: "mobile_ocr_plugin_get_type (initial_world ()) = (G_TYPE_MOBILE_OCR_PLUGIN, ?s1)"
    by (rule get_type_wf [OF wf_initial])
  have w1: "wf ?s1"
    by (simp add: wf_def initial_world_def)
  show ?thesis
    unfolding sample_world_def
    by (simp add: t new_wf [OF w1]) (simp add: initial_world_def fresh_ptr_def)
qed

lemma wf_sample_world: "wf sample_world"
  by (simp add: sample_world_eq wf_def)



section \<open>Releasing the last reference to a fresh plugin instance\<close>

lemma dispose_live:
  assumes "mobile_ocr_plugin_parent_class s = Some g_object_class"
    and "map_of (heap s) object = Some x"
  shows "mobile_ocr_plugin_dispose object s =
     Inr ((clear_qdata object s)\<lparr>trace := trace s @ [Ev_dispose object]\<rparr>)"
  using assms
  by (simp add: mobile_ocr_plugin_dispose_def call_host_def g_object_class_def
      g_object_real_dispose_def)

lemma unref_fresh:
  assumes "p \<notin> fst ` set h"
    and "heap s = (p, g_object_init G_TYPE_MOBILE_OCR_PLUGIN zeroed_instance) # h"
    and "plugin_class s = Some mobile_ocr_plugin_class"
    and "mobile_ocr_plugin_parent_class s = Some g_object_class"
  shows "g_object_unref p s =
     Inr (s\<lparr>heap := h,
            trace := trace s @ [Ev_dispose p, Ev_ref_count p 0, Ev_finalize p, Ev_free p]\<rparr>)"
proof -
  let ?x = "g_object_init G_TYPE_MOBILE_OCR_PLUGIN zeroed_instance"
  have cls: "g_object_get_class ?x s = Some (parent_class mobile_ocr_plugin_class)"
    using assms(3) by (simp add: g_object_get_class_def g_object_init_def zeroed_instance_def)
  have slots: "dispose (parent_class mobile_ocr_plugin_class) = Mobile_ocr_plugin_dispose"
    "finalize (parent_class mobile_ocr_plugin_class) = Host_fn G_object_finalize"
    by (simp_all add: mobile_ocr_plugin_class_def mobile_ocr_plugin_class_init_def
        inherit_class_def g_object_class_def)
  define s1 where "s1 = (clear_qdata p s)\<lparr>trace := trace s @ [Ev_dispose p]\<rparr>"
  have d: "call_fn Mobile_ocr_plugin_dispose p s = Inr s1"
    using assms(2,4) dispose_live [of s p ?x] by (simp add: call_fn_def s1_def)
  have h1: "heap s1 = (p, ?x) # h"
    using assms(1,2)
    by (simp add: s1_def clear_qdata_def store_update_head g_object_init_def zeroed_instance_def)
  define s2 where "s2 = set_ref_count p 0 s1"
  have h2: "heap s2 = (p, ?x\<lparr>parent_instance := (parent_instance ?x)\<lparr>ref_count := 0\<rparr>\<rparr>) # h"
    using assms(1) h1 by (simp add: s2_def set_ref_count_def store_update_head)
  define s3 where "s3 = (clear_qdata p s2)\<lparr>trace := trace s2 @ [Ev_finalize p]\<rparr>"
  have f: "call_fn (Host_fn G_object_finalize) p s2 = Inr s3"
    using h2 by (simp add: call_fn_def call_host_def g_object_finalize_def s3_def)
  have h3: "\<exists>y. heap s3 = (p, y) # h"
    using assms(1) h2 by (simp add: s3_def clear_qdata_def store_update_head)
  have fin: "g_type_free_instance p s3 =
      s\<lparr>heap := h,
        trace := trace s @ [Ev_dispose p, Ev_ref_count p 0, Ev_finalize p, Ev_free p]\<rparr>"
    using h3 assms(1)
    by (auto simp add: g_type_free_instance_def store_free_head s3_def s2_def s1_def
        set_ref_count_def clear_qdata_def)
  have rc: "ref_count (parent_instance ?x) = 1"
    by (simp add: g_object_init_def zeroed_instance_def)
  show ?thesis
    unfolding g_object_unref_def
    using assms(2) cls slots d h1 rc f fin
    by (simp add: Let_def s2_def)
qed

section \<open>The effect of a registration\<close>

lemma register_result:
  assumes w: "wf s"
  shows "mobile_ocr_plugin_register_with_registrar registrar s = Inr (registered s)"
proof -
  let ?s0 = "s\<lparr>static_g_define_type_id := G_TYPE_MOBILE_OCR_PLUGIN\<rparr>"
  let ?p = "fresh_ptr (heap s)"
  let ?s2 = "snd (g_object_new G_TYPE_MOBILE_OCR_PLUGIN ?s0)"
  have w0: "wf ?s0"
    using w by (auto simp add: wf_def split: option.splits)
  have n: "g_object_new G_TYPE_MOBILE_OCR_PLUGIN ?s0 = (?p, ?s2)"
    using new_wf [OF w0] by simp
  have u: "g_object_unref ?p ?s2 =
     Inr (?s2\<lparr>heap := heap s,
              trace := trace ?s2 @ [Ev_dispose ?p, Ev_ref_count ?p 0, Ev_finalize ?p, Ev_free ?p]\<rparr>)"
    by (rule unref_fresh [OF fresh_ptr_notin]) (simp_all add: new_wf [OF w0])
  show ?thesis
    unfolding mobile_ocr_plugin_register_with_registrar_def
    using get_type_wf [OF w] n u fresh_ptr_not_null [of "heap s"]
    by (simp add: glib_autoptr_cleanup_GObject_def registered_def new_wf [OF w0] Let_def)
qed

lemma wf_registered: "wf (registered s)"
  by (simp add: wf_def registered_def Let_def)

text \<open>
  What a registration leaves behind for good is the registration of the type and its
  initialised class; on a state that has both already, only the trace grows.
\<close>

lemma registered_type_and_class:
  "static_g_define_type_id (registered s) = G_TYPE_MOBILE_OCR_PLUGIN \<and>
   plugin_class (registered s) = Some mobile_ocr_plugin_class \<and>
   mobile_ocr_plugin_parent_class (registered s) = Some g_object_class \<and>
   heap (registered s) = heap s \<and> host (registered s) = host s"
  by (simp add: registered_def Let_def)


section \<open>The claims\<close>

text \<open>
  C1. For every registrar handle, a call of the registration entry point on a well-formed
  state returns, and what it did to instances is exactly this: it made one instance of the
  plugin type, that instance went through dispose, its reference count went to zero, it
  was finalized and freed. The instance is not live afterwards, and the state of the host
  framework, where registrars keep what is attached to them, is as it was.
\<close>

theorem register_constructs_one_instance_and_releases_it:
  assumes "wf s"
  shows "\<exists>s'. mobile_ocr_plugin_register_with_registrar registrar s = Inr s' \<and>
           trace s' = trace s @
             [Ev_new (fresh_ptr (heap s)) G_TYPE_MOBILE_OCR_PLUGIN,
              Ev_dispose (fresh_ptr (heap s)),
              Ev_ref_count (fresh_ptr (heap s)) 0,
              Ev_finalize (fresh_ptr (heap s)),
              Ev_free (fresh_ptr (heap s))] \<and>
           map_of (heap s') (fresh_ptr (heap s)) = None \<and>
           host s' = host s"
  using register_result [OF assms, of registrar] map_of_fresh_ptr [of "heap s"]
  by (simp add: registered_def Let_def)

theorem register_constructs_one_instance_and_releases_it_witness:
  "wf (initial_world ()) \<and>
   (\<exists>s'. mobile_ocr_plugin_register_with_registrar 7 (initial_world ()) = Inr s' \<and>
      trace s' =
        [Ev_new 1 G_TYPE_MOBILE_OCR_PLUGIN, Ev_dispose 1, Ev_ref_count 1 0,
         Ev_finalize 1, Ev_free 1] \<and>
      map_of (heap s') 1 = None \<and>
      host s' = ())"
proof -
  have fresh: "fresh_ptr (heap (initial_world ())) = 1" and h: "host (initial_world ()) = ()"
    and t: "trace (initial_world ()) = []"
    by (simp_all add: initial_world_def fresh_ptr_def)
  show ?thesis
    using register_constructs_one_instance_and_releases_it [OF wf_initial, of 7 "()"]
      wf_initial [of "()"]
    by (simp add: fresh h t)
qed

text \<open>
  C2. For every registrar handle, a call of the registration entry point on a well-formed
  state does not crash, and it leaves no instance behind: the live instances after the
  call are those before it, and the instances the call allocated are the ones it freed.
\<close>

theorem register_does_not_crash_or_leak:
  assumes "wf s"
  shows "\<exists>s'. mobile_ocr_plugin_register_with_registrar registrar s = Inr s' \<and>
           heap s' = heap s \<and>
           allocations (drop (length (trace s)) (trace s')) =
             releases (drop (length (trace s)) (trace s')) \<and>
           length (allocations (drop (length (trace s)) (trace s'))) = 1"
  using register_result [OF assms, of registrar]
  by (simp add: registered_def Let_def)

theorem register_does_not_crash_or_leak_witness:
  "wf sample_world \<and>
   (\<exists>s'. mobile_ocr_plugin_register_with_registrar NULL sample_world = Inr s' \<and>
      heap s' = heap sample_world \<and>
      allocations (drop 1 (trace s')) = releases (drop 1 (trace s')) \<and>
      length (allocations (drop 1 (trace s'))) = 1)"
  using register_does_not_crash_or_leak [OF wf_sample_world, of NULL]
  by (simp add: wf_sample_world) (simp add: sample_world_eq)




text \<open>
  C4. For every object, dispose does what the dispose routine of the parent class does
  with that object on the same state, and nothing else: the two give the same result,
  the same final state or the same failure.
\<close>

theorem dispose_forwards_to_parent:
  assumes "mobile_ocr_plugin_parent_class s = Some pc"
  shows "mobile_ocr_plugin_dispose object s = call_host (dispose pc) object s"
  using assms by (simp add: mobile_ocr_plugin_dispose_def)

theorem dispose_forwards_to_parent_witness:
  "mobile_ocr_plugin_parent_class sample_world = Some g_object_class \<and>
   mobile_ocr_plugin_dispose 1 sample_world = g_object_real_dispose 1 sample_world"
proof -
  have pc: "mobile_ocr_plugin_parent_class sample_world = Some g_object_class"
    by (simp add: sample_world_eq)
  show ?thesis
    using dispose_forwards_to_parent [OF pc, of 1] pc
    by (simp add: call_host_def g_object_class_def)
qed

text \<open>
  C5. The instance initialiser writes nothing, and a freshly constructed plugin instance
  is the zeroed instance with the header filled in by the host (its type, one reference,
  no data): nothing beyond the header differs from zero. Construction takes the type and
  nothing else.
\<close>

theorem construction_yields_zeroed_instance:
  "mobile_ocr_plugin_init self s = s \<and>
   (case g_object_new G_TYPE_MOBILE_OCR_PLUGIN s of
      (p, s') \<Rightarrow>
        map_of (heap s') p =
          Some (zeroed_instance\<lparr>parent_instance :=
                  \<lparr>g_type_instance = G_TYPE_MOBILE_OCR_PLUGIN, ref_count = 1, qdata = NULL\<rparr>\<rparr>))"
  by (simp add: mobile_ocr_plugin_init_def g_object_new_def g_type_create_instance_def
      g_object_init_def zeroed_instance_def Let_def)




text \<open>
  C8. The registration entry point does not depend on its argument: for any two registrar
  handles, the null handle among them, it gives the same result on the same state, the
  trace of what happened included.
\<close>

theorem register_ignores_registrar:
  "mobile_ocr_plugin_register_with_registrar registrar1 s =
   mobile_ocr_plugin_register_with_registrar registrar2 s"
  by (simp add: mobile_ocr_plugin_register_with_registrar_def)

text \<open>
  C9. On a well-formed state, two registrations in a row with the same handle return and
  leave the same program state as one: the first registers the type and initialises its
  class if that was not done yet, and the temporary instance of each call is gone when
  the call returns.
\<close>

theorem register_twice_is_register_once:
  assumes "wf s"
  shows "\<exists>s1 s2. register_all [registrar] s = Inr s1 \<and>
           register_all [registrar, registrar] s = Inr s2 \<and>
           observable s2 = observable s1"
proof -
  have one: "mobile_ocr_plugin_register_with_registrar registrar s = Inr (registered s)"
    using assms by (rule register_result)
  have two: "mobile_ocr_plugin_register_with_registrar registrar (registered s) =
      Inr (registered (registered s))"
    using wf_registered by (rule register_result)
  have "observable (registered (registered s)) = observable (registered s)"
    by (simp add: observable_def registered_def Let_def)
  then show ?thesis
    using one two by simp
qed

theorem register_twice_is_register_once_witness:
  "wf (initial_world ()) \<and>
   (\<exists>s1 s2. register_all [7] (initial_world ()) = Inr s1 \<and>
      register_all [7, 7] (initial_world ()) = Inr s2 \<and>
      observable s2 = observable s1)"
  using register_twice_is_register_once [OF wf_initial, of 7 "()"] wf_initial [of "()"]
  by simp

text \<open>
  C10. The class initialiser sets the dispose slot of the class structure to the dispose
  routine of the file and leaves every other field of the class structure as it was.
\<close>

theorem class_init_writes_only_dispose:
  "dispose (parent_class (mobile_ocr_plugin_class_init klass)) = Mobile_ocr_plugin_dispose \<and>
   g_type_class (parent_class (mobile_ocr_plugin_class_init klass)) =
     g_type_class (parent_class klass) \<and>
   constructor (parent_class (mobile_ocr_plugin_class_init klass)) =
     constructor (parent_class klass) \<and>
   set_property (parent_class (mobile_ocr_plugin_class_init klass)) =
     set_property (parent_class klass) \<and>
   get_property (parent_class (mobile_ocr_plugin_class_init klass)) =
     get_property (parent_class klass) \<and>
   finalize (parent_class (mobile_ocr_plugin_class_init klass)) =
     finalize (parent_class klass) \<and>
   dispatch_properties_changed (parent_class (mobile_ocr_plugin_class_init klass)) =
     dispatch_properties_changed (parent_class klass) \<and>
   notify (parent_class (mobile_ocr_plugin_class_init klass)) =
     notify (parent_class klass) \<and>
   constructed (parent_class (mobile_ocr_plugin_class_init klass)) =
     constructed (parent_class klass)"
  by (simp add: mobile_ocr_plugin_class_init_def)

end
